theory Spec2Isabelle
  imports Complex_Main
begin

section \<open>Python floats\<close>

text \<open>
  The resistance and the tolerance are Python floats (IEEE 754 binary64). A finite float is
  modelled by the rational number it denotes; negative zero, the two infinities and NaN are
  values of their own, since comparison and formatting treat them differently.
  An \<open>int\<close> argument (the source passes \<open>10_000_000\<close>) is the finite float of the same value.
\<close>

datatype pyfloat = Fin rat | NegZero | PosInf | NegInf | NaN

text \<open>
  Position of a float in the order of the extended reals, NaN having none: the class
  (-1 for \<open>-inf\<close>, 0 for finite, 1 for \<open>inf\<close>) and the value.
\<close>

fun ord_key :: "pyfloat \<Rightarrow> (int \<times> rat) option" where
  "ord_key (Fin x) = Some (0, x)"
| "ord_key NegZero = Some (0, 0)"
| "ord_key PosInf = Some (1, 0)"
| "ord_key NegInf = Some (-1, 0)"
| "ord_key NaN = None"

definition f_lt :: "pyfloat \<Rightarrow> pyfloat \<Rightarrow> bool" where
  "f_lt a b = (case (ord_key a, ord_key b) of
      (Some (i, x), Some (j, y)) \<Rightarrow> i < j \<or> (i = j \<and> x < y)
    | _ \<Rightarrow> False)"

definition f_eq :: "pyfloat \<Rightarrow> pyfloat \<Rightarrow> bool" where
  "f_eq a b = (case (ord_key a, ord_key b) of
      (Some (i, x), Some (j, y)) \<Rightarrow> i = j \<and> x = y
    | _ \<Rightarrow> False)"

definition f_le :: "pyfloat \<Rightarrow> pyfloat \<Rightarrow> bool" where
  "f_le a b = (f_lt a b \<or> f_eq a b)"

definition f_ge :: "pyfloat \<Rightarrow> pyfloat \<Rightarrow> bool" where
  "f_ge a b = f_le b a"

subsection \<open>Rounding to 53 significant bits\<close>

text \<open>The number of binary digits of a positive \<open>int\<close>.\<close>

function bit_length :: "int \<Rightarrow> int" where
  "bit_length n = (if n \<le> 0 then 0 else 1 + bit_length (n div 2))"
  by pat_completeness auto
termination
  by (relation "measure nat") auto

declare bit_length.simps [simp del]

text \<open>Round to the nearest integer, ties to the even one.\<close>

definition round_half_even :: "rat \<Rightarrow> int" where
  "round_half_even x =
     (let f = \<lfloor>x\<rfloor>; d = x - of_int f in
      if d < 1 / 2 then f
      else if 1 / 2 < d then f + 1
      else if even f then f else f + 1)"

text \<open>
  \<open>floor_log2 x\<close> is the exponent \<open>e\<close> with \<open>2^e \<le> x < 2^(e+1)\<close>, for \<open>x > 0\<close>: one less
  than the bit length of the integer part from 1 on, and below 1 the negated bit length of
  the predecessor of the reciprocal, rounded up.
\<close>

definition floor_log2 :: "rat \<Rightarrow> int" where
  "floor_log2 x =
     (if 1 \<le> x then bit_length \<lfloor>x\<rfloor> - 1 else - bit_length (\<lceil>1 / x\<rceil> - 1))"

text \<open>
  The binary64 nearest to a rational, ties to even, for results in the normal range (every
  arithmetic result of the program is: it divides only numbers that are at least 1000, and it
  multiplies series values by decades).
\<close>

definition round53 :: "rat \<Rightarrow> rat" where
  "round53 x =
     (if x = 0 then 0
      else let a = \<bar>x\<bar>; e = floor_log2 a - 52;
               m = of_int (round_half_even (a / 2 powi e)) * 2 powi e in
           if x < 0 then - m else m)"

text \<open>A decimal literal \<open>n / 10^k\<close> of the source, as the float Python reads it.\<close>

definition lit :: "int \<Rightarrow> nat \<Rightarrow> pyfloat" where
  "lit n k = Fin (round53 (of_int n / 10 ^ k))"

text \<open>\<open>x / d\<close> and \<open>x * d\<close> for a float \<open>x\<close> and a positive \<open>int\<close> constant \<open>d\<close>.\<close>

fun f_div :: "pyfloat \<Rightarrow> rat \<Rightarrow> pyfloat" where
  "f_div (Fin x) d = Fin (round53 (x / d))"
| "f_div NegZero d = NegZero"
| "f_div PosInf d = PosInf"
| "f_div NegInf d = NegInf"
| "f_div NaN d = NaN"

fun f_mul :: "pyfloat \<Rightarrow> rat \<Rightarrow> pyfloat" where
  "f_mul (Fin x) d = Fin (round53 (x * d))"
| "f_mul NegZero d = NegZero"
| "f_mul PosInf d = PosInf"
| "f_mul NegInf d = NegInf"
| "f_mul NaN d = NaN"

subsection \<open>Formatting with a fixed number of decimals\<close>

definition digit_char :: "int \<Rightarrow> char" where
  "digit_char d = ''0123456789'' ! nat d"

text \<open>The decimal digits of an \<open>int\<close> that is not negative.\<close>

function show_nat :: "int \<Rightarrow> string" where
  "show_nat n = (if n < 10 then [digit_char n] else show_nat (n div 10) @ [digit_char (n mod 10)])"
  by pat_completeness auto
termination
  by (relation "measure nat") auto

declare show_nat.simps [simp del]

text \<open>The last \<open>k\<close> decimal digits of \<open>n\<close>, zero padded.\<close>

fun show_frac :: "nat \<Rightarrow> int \<Rightarrow> string" where
  "show_frac 0 n = []"
| "show_frac (Suc k) n = show_frac k (n div 10) @ [digit_char (n mod 10)]"

text \<open>
  \<open>format_f prec x\<close> is the format specification \<open>.{prec}f\<close> with \<open>prec > 0\<close>: the exact value
  of the float, correctly rounded to \<open>prec\<close> decimals, ties to even; the sign is kept also
  when the digits round to zero.
\<close>

definition format_digits :: "nat \<Rightarrow> int \<Rightarrow> string" where
  "format_digits prec n =
     show_nat (n div 10 ^ prec) @ ''.'' @ show_frac prec (n mod 10 ^ prec)"

definition format_fin :: "nat \<Rightarrow> rat \<Rightarrow> string" where
  "format_fin prec a = format_digits prec (round_half_even (a * 10 ^ prec))"

fun format_f :: "nat \<Rightarrow> pyfloat \<Rightarrow> string" where
  "format_f prec (Fin x) = (if x < 0 then ''-'' @ format_fin prec (- x) else format_fin prec x)"
| "format_f prec NegZero = ''-'' @ format_fin prec 0"
| "format_f prec PosInf = ''inf''"
| "format_f prec NegInf = ''-inf''"
| "format_f prec NaN = ''nan''"

subsection \<open>String methods\<close>

definition rstrip :: "char \<Rightarrow> string \<Rightarrow> string" where
  "rstrip c s = rev (dropWhile (\<lambda>x. x = c) (rev s))"

definition replace_char :: "char \<Rightarrow> string \<Rightarrow> string \<Rightarrow> string" where
  "replace_char c new s = concat (map (\<lambda>x. if x = c then new else [x]) s)"

section \<open>The formatting functions\<close>

datatype error = ValueError string | IndexError

definition resistor_tolerance_str :: "pyfloat \<Rightarrow> string" where
  "resistor_tolerance_str tolerance =
     rstrip CHR ''.'' (rstrip CHR ''0'' (format_f 1 tolerance)) @ ''%''"

definition resistor_value_str :: "pyfloat \<Rightarrow> string" where
  "resistor_value_str resistance =
     (let (magnitude, resistance) =
        (if f_ge resistance (Fin 1000000) then (''M'', f_div resistance 1000000)
         else if f_ge resistance (Fin 1000) then (''k'', f_div resistance 1000)
         else ([], resistance))
      in rstrip CHR ''.'' (rstrip CHR ''0'' (format_f 2 resistance)) @ magnitude)"

definition resistor_part_id_str :: "pyfloat \<Rightarrow> string \<Rightarrow> pyfloat \<Rightarrow> string" where
  "resistor_part_id_str resistance package tolerance =
     ''R-'' @ resistor_value_str resistance @ ''-'' @ package @ ''-''
       @ resistor_tolerance_str tolerance"

definition resistor_footprint_str :: "string \<Rightarrow> error + string" where
  "resistor_footprint_str package =
     (if package = ''0402'' then Inr ''Resistor_SMD:R_0402_1005Metric''
      else if package = ''0603'' then Inr ''Resistor_SMD:R_0603_1608Metric''
      else Inl (ValueError ''Invalid package type''))"

definition resistor_description_str :: "pyfloat \<Rightarrow> string \<Rightarrow> pyfloat \<Rightarrow> string" where
  "resistor_description_str resistance package tolerance =
     ''Resistor '' @ resistor_value_str resistance @ '' '' @ package @ '' ''
       @ resistor_tolerance_str tolerance @ '' 0.1W''"

text \<open>Lines 147 to 156 of the part number builder: the magnitude letter and the scaled value.\<close>

definition mpn_scale :: "pyfloat \<Rightarrow> error + (string \<times> pyfloat)" where
  "mpn_scale resistance =
     (if f_lt resistance (Fin 1000) then Inr (''R'', resistance)
      else if f_lt resistance (Fin 1000000) then Inr (''K'', f_div resistance 1000)
      else if f_le resistance (Fin 10000000) then Inr (''M'', f_div resistance 1000000)
      else Inl (ValueError ''Not a valid resistance value (1 < {} < 10,000,000)''))"

text \<open>Line 159: strip trailing zeroes and replace the decimal point with the magnitude letter.\<close>

definition mpn_resistance_str :: "string \<Rightarrow> pyfloat \<Rightarrow> string" where
  "mpn_resistance_str magnitude resistance =
     replace_char CHR ''.'' magnitude (rstrip CHR ''0'' (format_f 2 resistance))"

text \<open>Lines 164 to 169: the tolerance code.\<close>

definition mpn_tolerance_str :: "pyfloat \<Rightarrow> error + string" where
  "mpn_tolerance_str tolerance =
     (if f_eq tolerance (Fin 1) then Inr ''F''
      else if f_eq tolerance (Fin 5) then Inr ''J''
      else Inl (ValueError ''Invalid tolerance, must be 1.0% or 5.0%''))"

definition mpn_packages :: "string list" where
  "mpn_packages = [''0201'', ''0402'', ''0603'', ''0805'', ''1206'', ''1210'']"

definition yageo_resistor_mpn :: "pyfloat \<Rightarrow> string \<Rightarrow> pyfloat \<Rightarrow> error + string" where
  "yageo_resistor_mpn resistance package tolerance =
     (case mpn_scale resistance of
        Inl e \<Rightarrow> Inl e
      | Inr (magnitude, scaled) \<Rightarrow>
          let resistance_str = mpn_resistance_str magnitude scaled in
          if package \<notin> set mpn_packages
          then Inl (ValueError ''Invalid package'')
          else (case mpn_tolerance_str tolerance of
                  Inl e \<Rightarrow> Inl e
                | Inr tolerance_str \<Rightarrow>
                    Inr (''RC'' @ package @ tolerance_str @ ''R'' @ ''-'' @ ''07''
                           @ resistance_str @ ''L'')))"

section \<open>Records\<close>

text \<open>
  The fields of \<open>DatabaseRow\<close> in the order of the class, which is the order of
  \<open>vars(self)\<close>; \<open>value\<close> and \<open>package\<close> carry the prefix \<open>row_\<close>, and the
  method \<open>values\<close> is \<open>values_list\<close>.
\<close>

record DatabaseRow =
  part_id :: string
  row_value :: string
  component :: string
  manufacturer :: string
  manufacturer_part_number :: string
  rating :: string
  row_package :: string
  lcsc :: string
  or_equivalent :: string
  symbol :: string
  footprint :: string
  datasheet :: string

definition values_list :: "DatabaseRow \<Rightarrow> string list" where
  "values_list row = [part_id row, row_value row, component row, manufacturer row,
     manufacturer_part_number row, rating row, row_package row, lcsc row, or_equivalent row,
     symbol row, footprint row, datasheet row]"

definition headers :: "DatabaseRow \<Rightarrow> string list" where
  "headers row = [''part_id'', ''value'', ''component'', ''manufacturer'',
     ''manufacturer_part_number'', ''rating'', ''package'', ''lcsc'', ''or_equivalent'',
     ''symbol'', ''footprint'', ''datasheet'']"

record YageoResistor =
  resistance :: pyfloat
  package :: string
  tolerance :: pyfloat
  database_row :: DatabaseRow

definition DATASHEET :: string where
  "DATASHEET = ''https://www.yageo.com/upload/media/product/products/datasheet/rchip/PYu-RC_Group_51_RoHS_L_12.pdf''"

text \<open>
  The constructor with \<open>__post_init__\<close>. The keyword arguments of \<open>DatabaseRow\<close> are
  evaluated in the order written, so the footprint is resolved before the part number is
  built, and either may raise.
\<close>

definition mk_YageoResistor :: "pyfloat \<Rightarrow> string \<Rightarrow> pyfloat \<Rightarrow> error + YageoResistor" where
  "mk_YageoResistor r p t =
     (case resistor_footprint_str p of
        Inl e \<Rightarrow> Inl e
      | Inr fp \<Rightarrow>
          (case yageo_resistor_mpn r p t of
             Inl e \<Rightarrow> Inl e
           | Inr mpn \<Rightarrow>
               Inr \<lparr>resistance = r, package = p, tolerance = t,
                    database_row = \<lparr>
                      part_id = resistor_part_id_str r p t,
                      row_value = resistor_value_str r,
                      component = resistor_description_str r p t,
                      manufacturer = ''Yageo'',
                      manufacturer_part_number = mpn,
                      rating = resistor_tolerance_str t @ '', '' @ ''0.1W'',
                      row_package = p,
                      lcsc = [],
                      or_equivalent = ''y'',
                      symbol = ''Device:R_Small'',
                      footprint = fp,
                      datasheet = DATASHEET\<rparr>\<rparr>))"

section \<open>The catalog\<close>

definition E24 :: "pyfloat list" where
  "E24 = [lit 10 1, lit 11 1, lit 12 1, lit 13 1, lit 15 1, lit 16 1, lit 18 1, lit 20 1,
          lit 22 1, lit 24 1, lit 27 1, lit 30 1, lit 33 1, lit 36 1, lit 39 1, lit 43 1,
          lit 47 1, lit 51 1, lit 56 1, lit 62 1, lit 68 1, lit 75 1, lit 82 1, lit 91 1]"

definition E48 :: "pyfloat list" where
  "E48 = [lit 100 2, lit 105 2, lit 110 2, lit 115 2, lit 121 2, lit 127 2, lit 133 2, lit 140 2,
          lit 147 2, lit 154 2, lit 162 2, lit 169 2, lit 178 2, lit 187 2, lit 196 2, lit 205 2,
          lit 215 2, lit 226 2, lit 237 2, lit 249 2, lit 261 2, lit 274 2, lit 287 2, lit 301 2,
          lit 316 2, lit 332 2, lit 348 2, lit 365 2, lit 383 2, lit 402 2, lit 422 2, lit 442 2,
          lit 464 2, lit 487 2, lit 511 2, lit 536 2, lit 562 2, lit 590 2, lit 619 2, lit 649 2,
          lit 681 2, lit 715 2, lit 750 2, lit 787 2, lit 825 2, lit 866 2, lit 909 2, lit 953 2]"

text \<open>
  A loop that appends one result per element and is left by the first exception: the list
  of the results, or the first error.
\<close>

fun collect :: "('a \<Rightarrow> error + 'b) \<Rightarrow> 'a list \<Rightarrow> error + 'b list" where
  "collect f [] = Inr []"
| "collect f (x # xs) =
     (case f x of
        Inl e \<Rightarrow> Inl e
      | Inr y \<Rightarrow> (case collect f xs of Inl e \<Rightarrow> Inl e | Inr ys \<Rightarrow> Inr (y # ys)))"

text \<open>The two nested loops of \<open>resistor_list\<close>: decades outside, series values inside.\<close>

definition resistor_list ::
  "string \<Rightarrow> pyfloat \<Rightarrow> pyfloat list \<Rightarrow> rat list \<Rightarrow> error + YageoResistor list" where
  "resistor_list pkg tol series ds =
     collect (\<lambda>(decade, base). mk_YageoResistor (f_mul base decade) pkg tol)
       (List.product ds series)"

text \<open>The four records appended after the loops.\<close>

definition boundary :: "(pyfloat \<times> string \<times> pyfloat) list" where
  "boundary = [(Fin 0, ''0402'', Fin 5), (Fin 0, ''0603'', Fin 5),
               (Fin 10000000, ''0402'', Fin 1), (Fin 10000000, ''0603'', Fin 1)]"

text \<open>
  Lines 195 to 207 of \<open>gen_resistor_csv\<close>, with the three local tables as parameters: the
  records of every package and series, then the four boundary records.
\<close>

definition build_resistors ::
  "string list \<Rightarrow> (pyfloat list \<times> pyfloat) list \<Rightarrow> rat list \<Rightarrow> error + YageoResistor list" where
  "build_resistors ps sts ds =
     (case collect (\<lambda>(pkg, series, tol). resistor_list pkg tol series ds)
             (List.product ps sts) of
        Inl e \<Rightarrow> Inl e
      | Inr groups \<Rightarrow>
          (case collect (\<lambda>(r, p, t). mk_YageoResistor r p t) boundary of
             Inl e \<Rightarrow> Inl e
           | Inr extra \<Rightarrow> Inr (concat groups @ extra)))"

definition packages :: "string list" where
  "packages = [''0402'', ''0603'']"

definition series_tolerances :: "(pyfloat list \<times> pyfloat) list" where
  "series_tolerances = [(E48, Fin 1), (E24, Fin 5)]"

definition decades :: "rat list" where
  "decades = [1, 10, 100, 1000, 10000, 100000, 1000000]"

section \<open>The output file\<close>

text \<open>
  \<open>csv.writer\<close> with \<open>QUOTE_ALL\<close>: every field between double quotes, a double quote
  inside a field doubled, fields separated by commas, the line ended by carriage return and
  line feed.
\<close>

definition csv_field :: "string \<Rightarrow> string" where
  "csv_field s = [CHR 0x22] @ replace_char (CHR 0x22) [CHR 0x22, CHR 0x22] s @ [CHR 0x22]"

fun join :: "string \<Rightarrow> string list \<Rightarrow> string" where
  "join sep [] = []"
| "join sep [x] = x"
| "join sep (x # y # ys) = x @ sep @ join sep (y # ys)"

definition writerow :: "string list \<Rightarrow> string" where
  "writerow row = join '','' (map csv_field row) @ [CHR 0x0D, CHR 0x0A]"

text \<open>
  The file system maps a path to the rows written to it. Opening with mode \<open>w\<close> creates or
  empties the file; this happens only once every record has been built. Indexing the empty
  list raises \<open>IndexError\<close>, after the file has been opened.
\<close>

type_synonym files = "string \<rightharpoonup> string list"

definition gen_resistor_csv_with ::
  "string list \<Rightarrow> (pyfloat list \<times> pyfloat) list \<Rightarrow> rat list \<Rightarrow> files
     \<Rightarrow> (error + unit) \<times> files" where
  "gen_resistor_csv_with ps sts ds fs =
     (case build_resistors ps sts ds of
        Inl e \<Rightarrow> (Inl e, fs)
      | Inr resistors \<Rightarrow>
          (case resistors of
             [] \<Rightarrow> (Inl IndexError, fs(''yageo_resistors.csv'' \<mapsto> []))
           | first # _ \<Rightarrow>
               (Inr (), fs(''yageo_resistors.csv'' \<mapsto>
                  writerow (headers (database_row first))
                    # map (\<lambda>resistor. writerow (values_list (database_row resistor))) resistors))))"

definition gen_resistor_csv :: "files \<Rightarrow> (error + unit) \<times> files" where
  "gen_resistor_csv = gen_resistor_csv_with packages series_tolerances decades"

section \<open>Comparison of finite floats\<close>

lemma f_lt_Fin [simp]: "f_lt (Fin x) (Fin y) = (x < y)"
  by (simp add: f_lt_def)

lemma f_eq_Fin [simp]: "f_eq (Fin x) (Fin y) = (x = y)"
  by (simp add: f_eq_def)

lemma f_le_Fin [simp]: "f_le (Fin x) (Fin y) = (x \<le> y)"
  by (auto simp: f_le_def)

lemma f_ge_Fin [simp]: "f_ge (Fin x) (Fin y) = (y \<le> x)"
  by (simp add: f_ge_def)

section \<open>The footprint resolver\<close>

text \<open>
  C7: the footprint resolver returns \<open>Resistor_SMD:R_0402_1005Metric\<close> for package 0402 and
  \<open>Resistor_SMD:R_0603_1608Metric\<close> for package 0603, and fails with the invalid-package
  error for every other package string, the four other codes of the part number builder
  among them.
\<close>

theorem footprint_resolver:
  "resistor_footprint_str ''0402'' = Inr ''Resistor_SMD:R_0402_1005Metric''
   \<and> resistor_footprint_str ''0603'' = Inr ''Resistor_SMD:R_0603_1608Metric''
   \<and> (\<forall>p. p \<noteq> ''0402'' \<and> p \<noteq> ''0603'' \<longrightarrow>
          resistor_footprint_str p = Inl (ValueError ''Invalid package type''))"
  by (simp add: resistor_footprint_str_def)

theorem footprint_resolver_witness:
  "''0805'' \<in> set mpn_packages \<and> ''0805'' \<noteq> ''0402'' \<and> ''0805'' \<noteq> ''0603''
   \<and> resistor_footprint_str ''0805'' = Inl (ValueError ''Invalid package type'')"
  using footprint_resolver by (simp add: mpn_packages_def)

section \<open>The manufacturer part number\<close>

lemma mpn_scale_error:
  "(mpn_scale r = Inl e) =
   (\<not> f_le r (Fin 10000000)
    \<and> e = ValueError ''Not a valid resistance value (1 < {} < 10,000,000)'')"
  by (cases r) (auto simp: mpn_scale_def f_le_def f_lt_def f_eq_def)

lemma mpn_scale_ok:
  "f_le r (Fin 10000000) \<Longrightarrow> \<exists>mag scaled. mpn_scale r = Inr (mag, scaled)"
  by (cases "mpn_scale r") (auto simp: mpn_scale_error)

lemma mpn_example:
  "yageo_resistor_mpn (Fin 10000) ''0603'' (Fin 1) = Inr ''RC0603FR-0710KL''"
  by code_simp

text \<open>
  C1, as the code has it: for a resistance from 0 to 10,000,000, one of the six packages
  and a tolerance equal to 1.0 or 5.0, the part number is \<open>RC\<close>, the package, the tolerance
  code, \<open>R\<close>, a hyphen, \<open>07\<close>, the scaled mantissa and \<open>L\<close>, with nothing else in between.
\<close>

theorem mpn_format:
  assumes "f_le (Fin 0) r" and "f_le r (Fin 10000000)"
    and "p \<in> set mpn_packages" and "f_eq t (Fin 1) \<or> f_eq t (Fin 5)"
  shows "\<exists>magnitude scaled.
           mpn_scale r = Inr (magnitude, scaled)
         \<and> yageo_resistor_mpn r p t =
             Inr (''RC'' @ p @ (if f_eq t (Fin 1) then ''F'' else ''J'') @ ''R'' @ ''-'' @ ''07''
                    @ mpn_resistance_str magnitude scaled @ ''L'')"
proof -
  obtain mag scaled where s: "mpn_scale r = Inr (mag, scaled)"
    using assms(2) mpn_scale_ok by blast
  show ?thesis
    using assms(3,4) s by (auto simp: yageo_resistor_mpn_def mpn_tolerance_str_def)
qed

theorem mpn_format_witness:
  "f_le (Fin 0) (Fin 10000) \<and> f_le (Fin 10000) (Fin 10000000)
   \<and> ''0603'' \<in> set mpn_packages \<and> (f_eq (Fin 1) (Fin 1) \<or> f_eq (Fin 1) (Fin 5))
   \<and> yageo_resistor_mpn (Fin 10000) ''0603'' (Fin 1) = Inr ''RC0603FR-0710KL''
   \<and> (\<exists>magnitude scaled.
         mpn_scale (Fin 10000) = Inr (magnitude, scaled)
       \<and> yageo_resistor_mpn (Fin 10000) ''0603'' (Fin 1) =
           Inr (''RC'' @ ''0603'' @ ''F'' @ ''R'' @ ''-'' @ ''07''
                  @ mpn_resistance_str magnitude scaled @ ''L''))"
proof -
  have h1: "f_le (Fin 0) (Fin 10000)" and h2: "f_le (Fin 10000) (Fin 10000000)"
    and h3: "''0603'' \<in> set mpn_packages"
    and h4: "f_eq (Fin 1) (Fin 1) \<or> f_eq (Fin 1) (Fin 5)"
    by (simp_all add: mpn_packages_def)
  show ?thesis
    using mpn_format [OF h1 h2 h3 h4] h1 h2 h3 h4 mpn_example by simp
qed

text \<open>
  The part number of 10 kilohm, 0603, 1% has a hyphen between the packaging code \<open>R\<close> and
  the reel code \<open>07\<close>, so it is not the plain concatenation of the seven pieces.
\<close>

theorem mpn_format_counterexample:
  "yageo_resistor_mpn (Fin 10000) ''0603'' (Fin 1) = Inr ''RC0603FR-0710KL''
   \<and> mpn_scale (Fin 10000) = Inr (''K'', Fin 10)
   \<and> mpn_resistance_str ''K'' (Fin 10) = ''10K''
   \<and> ''RC0603FR-0710KL'' \<noteq> ''RC'' @ ''0603'' @ ''F'' @ ''R'' @ ''07'' @ ''10K'' @ ''L''"
  by code_simp

text \<open>
  C4, as the code has it: the checks run in the order resistance, package, tolerance, and
  the first that fails decides the error. The invalid-resistance error is raised exactly
  when the resistance is not at most 10,000,000 (it exceeds it, or is NaN); the
  invalid-package error exactly when the resistance passes and the package is none of the
  six codes; the invalid-tolerance error exactly when resistance and package pass and the
  tolerance equals neither 1.0 nor 5.0; and a string is returned exactly when all three
  pass.
\<close>

theorem mpn_errors:
  "(yageo_resistor_mpn r p t
      = Inl (ValueError ''Not a valid resistance value (1 < {} < 10,000,000)''))
     = (\<not> f_le r (Fin 10000000))
   \<and> (yageo_resistor_mpn r p t = Inl (ValueError ''Invalid package''))
     = (f_le r (Fin 10000000) \<and> p \<notin> set mpn_packages)
   \<and> (yageo_resistor_mpn r p t
        = Inl (ValueError ''Invalid tolerance, must be 1.0% or 5.0%''))
     = (f_le r (Fin 10000000) \<and> p \<in> set mpn_packages
        \<and> \<not> f_eq t (Fin 1) \<and> \<not> f_eq t (Fin 5))
   \<and> (\<exists>s. yageo_resistor_mpn r p t = Inr s)
     = (f_le r (Fin 10000000) \<and> p \<in> set mpn_packages
        \<and> (f_eq t (Fin 1) \<or> f_eq t (Fin 5)))"
proof (cases "f_le r (Fin 10000000)")
  case True
  then obtain mag scaled where "mpn_scale r = Inr (mag, scaled)"
    using mpn_scale_ok by blast
  with True show ?thesis
    by (simp add: yageo_resistor_mpn_def mpn_tolerance_str_def)
next
  case False
  then have "mpn_scale r
      = Inl (ValueError ''Not a valid resistance value (1 < {} < 10,000,000)'')"
    by (simp add: mpn_scale_error)
  with False show ?thesis
    by (simp add: yageo_resistor_mpn_def)
qed

theorem mpn_errors_witness:
  "yageo_resistor_mpn (Fin 10000001) ''0603'' (Fin 1)
     = Inl (ValueError ''Not a valid resistance value (1 < {} < 10,000,000)'')
   \<and> yageo_resistor_mpn (Fin 10000) ''0603'' (Fin 2)
     = Inl (ValueError ''Invalid tolerance, must be 1.0% or 5.0%'')
   \<and> yageo_resistor_mpn (Fin 10000) ''0604'' (Fin 1) = Inl (ValueError ''Invalid package'')
   \<and> (\<exists>s. yageo_resistor_mpn (Fin 10000) ''0603'' (Fin 5) = Inr s)"
  using mpn_errors [of "Fin 10000001" "''0603''" "Fin 1"]
    mpn_errors [of "Fin 10000" "''0603''" "Fin 2"]
    mpn_errors [of "Fin 10000" "''0604''" "Fin 1"]
    mpn_errors [of "Fin 10000" "''0603''" "Fin 5"]
  by (simp add: mpn_packages_def)

text \<open>
  A tolerance of 2.0 with an unknown package raises the invalid-package error, not the
  invalid-tolerance error; and NaN, which does not exceed 10,000,000, raises the
  invalid-resistance error.
\<close>

theorem mpn_errors_counterexample:
  "\<not> f_eq (Fin 2) (Fin 1) \<and> \<not> f_eq (Fin 2) (Fin 5)
   \<and> yageo_resistor_mpn (Fin 100) ''9999'' (Fin 2) = Inl (ValueError ''Invalid package'')
   \<and> \<not> f_lt (Fin 10000000) NaN
   \<and> yageo_resistor_mpn NaN ''0603'' (Fin 1)
       = Inl (ValueError ''Not a valid resistance value (1 < {} < 10,000,000)'')"
  by code_simp

section \<open>The fixed fields of a record\<close>

lemma tolerance_str_1: "resistor_tolerance_str (Fin 1) = ''1%''"
  by code_simp

text \<open>
  C10: every record that is built has the manufacturer \<open>Yageo\<close>, the symbol
  \<open>Device:R_Small\<close>, the datasheet address of the source, an empty \<open>lcsc\<close>, \<open>y\<close> for
  \<open>or_equivalent\<close>, and as rating the formatted tolerance followed by \<open>, 0.1W\<close>.
\<close>

theorem record_metadata:
  assumes "mk_YageoResistor r p t = Inr y"
  shows "manufacturer (database_row y) = ''Yageo''
       \<and> symbol (database_row y) = ''Device:R_Small''
       \<and> datasheet (database_row y) =
           ''https://www.yageo.com/upload/media/product/products/datasheet/rchip/PYu-RC_Group_51_RoHS_L_12.pdf''
       \<and> lcsc (database_row y) = []
       \<and> or_equivalent (database_row y) = ''y''
       \<and> or_equivalent (database_row y) \<noteq> []
       \<and> rating (database_row y) = resistor_tolerance_str t @ '', 0.1W''"
  using assms
  by (auto simp: mk_YageoResistor_def DATASHEET_def split: sum.splits)

theorem record_metadata_witness:
  "\<exists>y. mk_YageoResistor (Fin 10000) ''0603'' (Fin 1) = Inr y
       \<and> manufacturer (database_row y) = ''Yageo''
       \<and> symbol (database_row y) = ''Device:R_Small''
       \<and> lcsc (database_row y) = []
       \<and> or_equivalent (database_row y) = ''y''
       \<and> rating (database_row y) = ''1%, 0.1W''"
proof -
  obtain y where y: "mk_YageoResistor (Fin 10000) ''0603'' (Fin 1) = Inr y"
    by (simp add: mk_YageoResistor_def resistor_footprint_str_def mpn_example)
  show ?thesis
    using record_metadata [OF y] y by (simp add: tolerance_str_1)
qed

end
